theory Spec2Isabelle
  imports Main
begin

section \<open>JavaScript values\<close>

text \<open>
  The service (\<^verbatim>\<open>src/server.js\<close>) handles values that arrive as JSON: request bodies
  parsed by \<^verbatim>\<open>express.json()\<close>, change-feed rows, and profile rows. Its guards are
  truthiness tests, so the values are modelled as JavaScript has them.

  \<^item> Strings are \<open>string\<close> (bytes of the UTF-8 encoding of the source text).
  \<^item> Numbers are the integers; a non-integral number behaves here like a nonzero
    integer (it is truthy and its property key names no property the program reads).
  \<^item> An object is the sequence of its property definitions, in the order of the
    object literal or JSON text: a later definition of a key overrides an earlier one.
  \<^item> \<open>JBuiltin k\<close> is the member \<open>k\<close> that every ordinary object inherits from
    \<^verbatim>\<open>Object.prototype\<close> (a function, or the prototype object itself).
\<close>

datatype jsval =
    JUndefined
  | JNull
  | JBool bool
  | JNum int
  | JStr string
  | JArr "jsval list"
  | JObj "(string \<times> jsval) list"
  | JBuiltin string

text \<open>ToBoolean: \<^verbatim>\<open>undefined\<close>, \<^verbatim>\<open>null\<close>, \<^verbatim>\<open>false\<close>, \<^verbatim>\<open>0\<close> and \<^verbatim>\<open>''\<close> are falsy.\<close>

fun truthy :: "jsval \<Rightarrow> bool" where
  "truthy JUndefined = False"
| "truthy JNull = False"
| "truthy (JBool b) = b"
| "truthy (JNum n) = (n \<noteq> 0)"
| "truthy (JStr s) = (s \<noteq> [])"
| "truthy (JArr xs) = True"
| "truthy (JObj ps) = True"
| "truthy (JBuiltin k) = True"

text \<open>The operator \<^verbatim>\<open>a || b\<close>.\<close>

definition js_or :: "jsval \<Rightarrow> jsval \<Rightarrow> jsval" where
  "js_or a b = (if truthy a then a else b)"

fun nullish :: "jsval \<Rightarrow> bool" where
  "nullish JUndefined = True"
| "nullish JNull = True"
| "nullish v = False"

fun is_string :: "jsval \<Rightarrow> bool" where
  "is_string (JStr s) = True"
| "is_string v = False"

text \<open>
  An \<^verbatim>\<open>Error\<close> object with its \<^verbatim>\<open>message\<close>: what a rejected service call, a failed
  conversion or a failed member access throws.
\<close>

datatype js_error = Error (message: string)

subsection \<open>Conversion to a string\<close>

function string_of_nat :: "nat \<Rightarrow> string" where
  "string_of_nat n =
     (if n < 10 then [''0123456789'' ! n]
      else string_of_nat (n div 10) @ [''0123456789'' ! (n mod 10)])"
  by pat_completeness auto
termination
  by (relation "measure id") auto

definition string_of_int :: "int \<Rightarrow> string" where
  "string_of_int i = (if i < 0 then CHR ''-'' # string_of_nat (nat (- i)) else string_of_nat (nat i))"

fun join :: "string \<Rightarrow> string list \<Rightarrow> string" where
  "join sep [] = []"
| "join sep [s] = s"
| "join sep (s # t # ss) = s @ sep @ join sep (t # ss)"

text \<open>
  The result of ToString where the conversion succeeds (see \<open>printable\<close> below). An array
  joins its elements with commas, \<^verbatim>\<open>null\<close> and \<^verbatim>\<open>undefined\<close> elements printing as
  nothing; a plain object prints as \<^verbatim>\<open>[object Object]\<close>.
\<close>

fun to_string :: "jsval \<Rightarrow> string" where
  "to_string JUndefined = ''undefined''"
| "to_string JNull = ''null''"
| "to_string (JBool b) = (if b then ''true'' else ''false'')"
| "to_string (JNum n) = string_of_int n"
| "to_string (JStr s) = s"
| "to_string (JArr xs) = join '','' (map (\<lambda>x. if nullish x then [] else to_string x) xs)"
| "to_string (JObj ps) = ''[object Object]''"
| "to_string (JBuiltin k) =
     (if k = ''__proto__'' then ''[object Object]''
      else ''function '' @ (if k = ''constructor'' then ''Object'' else k) @ ''() { [native code] }'')"

subsection \<open>Property access\<close>

text \<open>The own property \<open>k\<close> of the object defined by \<open>ps\<close>: the last definition wins.\<close>

definition own_property :: "(string \<times> jsval) list \<Rightarrow> string \<Rightarrow> jsval option" where
  "own_property ps k = map_of (rev ps) k"

text \<open>The members of \<^verbatim>\<open>Object.prototype\<close>, which every object literal inherits.\<close>

definition object_prototype_names :: "string list" where
  "object_prototype_names =
     [''constructor'', ''__defineGetter__'', ''__defineSetter__'', ''hasOwnProperty'',
      ''__lookupGetter__'', ''__lookupSetter__'', ''isPrototypeOf'', ''propertyIsEnumerable'',
      ''toString'', ''valueOf'', ''__proto__'', ''toLocaleString'']"

definition object_prototype :: "string \<Rightarrow> jsval" where
  "object_prototype k = (if k \<in> set object_prototype_names then JBuiltin k else JUndefined)"

text \<open>
  Member access \<^verbatim>\<open>obj.k\<close> on an object: the own property if there is one, the
  inherited member otherwise, \<^verbatim>\<open>undefined\<close> if neither exists.
\<close>

definition object_get :: "(string \<times> jsval) list \<Rightarrow> string \<Rightarrow> jsval" where
  "object_get ps k = (case own_property ps k of Some v \<Rightarrow> v | None \<Rightarrow> object_prototype k)"

text \<open>
  Member access on any value that is neither \<^verbatim>\<open>null\<close> nor \<^verbatim>\<open>undefined\<close>. For strings,
  arrays, numbers and booleans only \<^verbatim>\<open>Object.prototype\<close> is consulted: their index
  properties and their own prototypes hold none of the keys this program reads.
\<close>

fun get_prop :: "jsval \<Rightarrow> string \<Rightarrow> jsval" where
  "get_prop (JObj ps) k = object_get ps k"
| "get_prop v k = object_prototype k"

subsection \<open>Conversions that throw\<close>

text \<open>
  ToString of an object first calls its \<^verbatim>\<open>toString\<close>. An object parsed from JSON that has
  an own property \<^verbatim>\<open>toString\<close> (never a function) is left with the inherited \<^verbatim>\<open>valueOf\<close>,
  which returns the object itself, and the conversion throws a TypeError. An array
  converts each of its elements other than \<^verbatim>\<open>null\<close> and \<^verbatim>\<open>undefined\<close>.
\<close>

fun printable :: "jsval \<Rightarrow> bool" where
  "printable (JObj ps) = (own_property ps ''toString'' = None)"
| "printable (JArr xs) = (\<forall>x \<in> set xs. nullish x \<or> printable x)"
| "printable v = True"

definition cannot_convert :: js_error where
  "cannot_convert = Error ''Cannot convert object to primitive value''"

text \<open>
  The key of a computed member access \<^verbatim>\<open>obj[key]\<close>, and likewise the text that a template
  literal \<^verbatim>\<open>`${v}`\<close> inserts.
\<close>

definition to_property_key :: "jsval \<Rightarrow> js_error + string" where
  "to_property_key v = (if printable v then Inr (to_string v) else Inl cannot_convert)"

section \<open>Message Formatter\<close>

definition titles :: "(string \<times> jsval) list" where
  "titles =
     [(''like'', JStr ([CHR 0xE2, CHR 0x9D, CHR 0xA4, CHR 0xEF, CHR 0xB8, CHR 0x8F] @ '' New Like'')),
      (''comment'', JStr ([CHR 0xF0, CHR 0x9F, CHR 0x92, CHR 0xAC] @ '' New Comment'')),
      (''follow'', JStr ([CHR 0xF0, CHR 0x9F, CHR 0x91, CHR 0xA4] @ '' New Follower'')),
      (''reply'', JStr ([CHR 0xE2, CHR 0x86, CHR 0xA9, CHR 0xEF, CHR 0xB8, CHR 0x8F] @ '' New Reply'')),
      (''mention'', JStr ([CHR ''@'', CHR 0xEF, CHR 0xB8, CHR 0x8F] @ '' Mention''))]"

text \<open>\<^verbatim>\<open>return titles[type] || 'New Notification'\<close>\<close>

definition getTitleForType :: "jsval \<Rightarrow> js_error + jsval" where
  "getTitleForType type =
     (case to_property_key type of
        Inl e \<Rightarrow> Inl e
      | Inr k \<Rightarrow> Inr (js_or (object_get titles k) (JStr ''New Notification'')))"

definition messages :: "(string \<times> jsval) list" where
  "messages =
     [(''like'', JStr ''Someone liked your post''),
      (''comment'', JStr ''Someone commented on your post''),
      (''follow'', JStr ''Someone started following you''),
      (''reply'', JStr ''Someone replied to your comment''),
      (''mention'', JStr ''Someone mentioned you'')]"

text \<open>\<^verbatim>\<open>return messages[type] || 'You have a new notification'\<close>\<close>

definition getMessageForType :: "jsval \<Rightarrow> js_error + jsval" where
  "getMessageForType type =
     (case to_property_key type of
        Inl e \<Rightarrow> Inl e
      | Inr k \<Rightarrow> Inr (js_or (object_get messages k) (JStr ''You have a new notification'')))"

section \<open>External services and observable effects\<close>

text \<open>
  The outcome \<^verbatim>\<open>{ data, error }\<close> of the profile query
  \<^verbatim>\<open>supabase.from('profiles').select('fcm_token').eq('id', userId).single()\<close>. The client
  reports a failed query in \<open>error\<close>; it does not throw.
\<close>

record query_result =
  result_data :: jsval
  result_error :: jsval

text \<open>
  The two services the process talks to, as parameters: the profile store and
  \<^verbatim>\<open>admin.messaging().send\<close>, which resolves to a message identifier or rejects.
\<close>

record services =
  profile_query :: "jsval \<Rightarrow> query_result"
  messaging_send :: "jsval \<Rightarrow> js_error + string"

text \<open>Everything a run does besides returning: console output and service calls, in order.\<close>

datatype effect =
    Log_sending jsval jsval
  | Profile_query jsval
  | Log_no_token jsval
  | Messaging_send jsval
  | Log_sent string
  | Log_send_error js_error
  | Log_new_notification jsval
  | Log_processing_error js_error

section \<open>Notification Dispatcher\<close>

text \<open>
  The own enumerable properties that a spread \<^verbatim>\<open>...data\<close> copies: those of an object,
  the indexed elements of an array or string (per byte, which is exact for ASCII),
  and nothing for any other value.
\<close>

fun own_enumerable :: "jsval \<Rightarrow> (string \<times> jsval) list" where
  "own_enumerable (JObj ps) = ps"
| "own_enumerable (JArr xs) = zip (map string_of_nat [0..<length xs]) xs"
| "own_enumerable (JStr s) = zip (map string_of_nat [0..<length s]) (map (\<lambda>c. JStr [c]) s)"
| "own_enumerable v = []"

text \<open>The default parameter \<^verbatim>\<open>data = {}\<close> applies to \<^verbatim>\<open>undefined\<close> only.\<close>

definition default_data :: "jsval \<Rightarrow> jsval" where
  "default_data data = (if data = JUndefined then JObj [] else data)"

text \<open>
  The object literal \<^verbatim>\<open>{ type: type, title: title, body: body, ...data }\<close>: the spread
  comes last.
\<close>

definition payload_data :: "jsval \<Rightarrow> jsval \<Rightarrow> jsval \<Rightarrow> jsval \<Rightarrow> (string \<times> jsval) list" where
  "payload_data type title body data =
     [(''type'', type), (''title'', title), (''body'', body)] @ own_enumerable data"

text \<open>The object literal \<^verbatim>\<open>message\<close> of \<^verbatim>\<open>sendNotification\<close>.\<close>

definition build_message :: "jsval \<Rightarrow> jsval \<Rightarrow> jsval \<Rightarrow> jsval \<Rightarrow> jsval \<Rightarrow> jsval" where
  "build_message type title body data fcmToken =
     JObj [(''data'', JObj (payload_data type title body data)),
           (''token'', fcmToken),
           (''android'', JObj [(''priority'', JStr ''high'')]),
           (''apns'', JObj [(''headers'', JObj [(''apns-priority'', JStr ''10'')])])]"

text \<open>\<^verbatim>\<open>profiles?.fcm_token\<close>\<close>

definition fcm_token_of :: "jsval \<Rightarrow> jsval" where
  "fcm_token_of profiles = (if nullish profiles then JUndefined else get_prop profiles ''fcm_token'')"

text \<open>The guard \<^verbatim>\<open>error || !profiles?.fcm_token\<close>.\<close>

definition no_token :: "query_result \<Rightarrow> bool" where
  "no_token r = (truthy (result_error r) \<or> \<not> truthy (fcm_token_of (result_data r)))"

text \<open>
  \<^verbatim>\<open>sendNotification(userId, title, body, type, data = {})\<close>: the thrown error or the
  returned value, with the effects of the run. The opening log line prints \<open>type\<close> and
  \<open>userId\<close> in a template literal; if one of them cannot be converted, the \<^verbatim>\<open>catch\<close> block
  logs the TypeError and throws it again before any service is called.
\<close>

definition sendNotification ::
  "services \<Rightarrow> jsval \<Rightarrow> jsval \<Rightarrow> jsval \<Rightarrow> jsval \<Rightarrow> jsval \<Rightarrow> (js_error + jsval) \<times> effect list" where
  "sendNotification env userId title body type data0 =
     (let data = default_data data0
      in if \<not> printable type \<or> \<not> printable userId
         then (Inl cannot_convert, [Log_send_error cannot_convert])
         else
           let r = profile_query env userId
           in if no_token r
              then (Inr JNull, [Log_sending type userId, Profile_query userId, Log_no_token userId])
              else
                let fcmToken = get_prop (result_data r) ''fcm_token'';
                    msg = build_message type title body data fcmToken
                in case messaging_send env msg of
                     Inr response \<Rightarrow>
                       (Inr (JStr response),
                        [Log_sending type userId, Profile_query userId, Messaging_send msg,
                         Log_sent response])
                   | Inl e \<Rightarrow>
                       (Inl e,
                        [Log_sending type userId, Profile_query userId, Messaging_send msg,
                         Log_send_error e]))"

section \<open>HTTP Surface\<close>

datatype response = Response (status: nat) (json: jsval)

definition quoted :: "string \<Rightarrow> string" where
  "quoted s = [CHR 0x27] @ s @ [CHR 0x27]"

text \<open>
  Destructuring \<^verbatim>\<open>const { k, ... } = v\<close> throws a TypeError when \<open>v\<close> is \<^verbatim>\<open>null\<close> or
  \<^verbatim>\<open>undefined\<close> (the message is the engine's); \<open>k\<close> is the first key of the pattern
  and \<open>src\<close> the text of the expression.
\<close>

definition destructurable :: "string \<Rightarrow> string \<Rightarrow> jsval \<Rightarrow> js_error + jsval" where
  "destructurable k src v =
     (if nullish v
      then Inl (Error (''Cannot destructure property '' @ quoted k @ '' of '' @ quoted src
                       @ '' as it is '' @ to_string v @ ''.''))
      else Inr v)"

text \<open>
  The handler of \<^verbatim>\<open>POST /api/notifications/send\<close>, applied to \<^verbatim>\<open>req.body\<close>: the response
  it sends, with the effects of the run.
\<close>

definition post_notifications_send :: "services \<Rightarrow> jsval \<Rightarrow> response \<times> effect list" where
  "post_notifications_send env req_body =
     (case destructurable ''userId'' ''req.body'' req_body of
        Inl e \<Rightarrow> (Response 500 (JObj [(''error'', JStr (message e))]), [])
      | Inr b \<Rightarrow>
          let userId = get_prop b ''userId''; title = get_prop b ''title'';
              body = get_prop b ''body''; type = get_prop b ''type''; data = get_prop b ''data''
          in if \<not> truthy userId \<or> \<not> truthy title \<or> \<not> truthy body \<or> \<not> truthy type
             then (Response 400 (JObj [(''error'', JStr ''Missing required fields'')]), [])
             else
               (case sendNotification env userId title body type data of
                  (Inr messageId, effs) \<Rightarrow>
                    (Response 200 (JObj [(''success'', JBool True), (''messageId'', messageId)]), effs)
                | (Inl e, effs) \<Rightarrow>
                    (Response 500 (JObj [(''error'', JStr (message e))]), effs)))"

section \<open>Change-Feed Listener\<close>

text \<open>\<^verbatim>\<open>payload.new\<close> throws a TypeError when \<open>payload\<close> is \<^verbatim>\<open>null\<close> or \<^verbatim>\<open>undefined\<close>.\<close>

definition read_new :: "jsval \<Rightarrow> js_error + jsval" where
  "read_new payload =
     (if nullish payload
      then Inl (Error (''Cannot read properties of '' @ to_string payload @ '' (reading ''
                       @ quoted ''new'' @ '')''))
      else Inr (get_prop payload ''new''))"

text \<open>
  The auxiliary data the listener passes to the dispatcher:
  \<^verbatim>\<open>{ post_id: post_id || '', comment_id: comment_id || '', sender_id: sender_id || '' }\<close>.
\<close>

definition aux_data :: "jsval \<Rightarrow> jsval" where
  "aux_data notification =
     JObj [(''post_id'', js_or (get_prop notification ''post_id'') (JStr [])),
           (''comment_id'', js_or (get_prop notification ''comment_id'') (JStr [])),
           (''sender_id'', js_or (get_prop notification ''sender_id'') (JStr []))]"

text \<open>\<^verbatim>\<open>a || f(type)\<close>, where \<open>f\<close> is called only if \<open>a\<close> is falsy and may throw.\<close>

definition or_default :: "jsval \<Rightarrow> (jsval \<Rightarrow> js_error + jsval) \<Rightarrow> jsval \<Rightarrow> js_error + jsval" where
  "or_default a f type = (if truthy a then Inr a else f type)"

text \<open>
  The body of the \<^verbatim>\<open>try\<close> block of the listener's callback. The arguments of the call are
  evaluated from left to right.
\<close>

definition process_notification :: "services \<Rightarrow> jsval \<Rightarrow> (js_error + jsval) \<times> effect list" where
  "process_notification env payload =
     (case read_new payload of
        Inl e \<Rightarrow> (Inl e, [])
      | Inr notification \<Rightarrow>
          (case destructurable ''user_id'' ''notification'' notification of
             Inl e \<Rightarrow> (Inl e, [Log_new_notification notification])
           | Inr n \<Rightarrow>
               let user_id = get_prop n ''user_id''; type = get_prop n ''type'';
                   title = get_prop n ''title''; msg = get_prop n ''message''
               in (case or_default title getTitleForType type of
                     Inl e \<Rightarrow> (Inl e, [Log_new_notification notification])
                   | Inr title' \<Rightarrow>
                       (case or_default msg getMessageForType type of
                          Inl e \<Rightarrow> (Inl e, [Log_new_notification notification])
                        | Inr msg' \<Rightarrow>
                            (case sendNotification env user_id title' msg' type (aux_data n) of
                               (res, effs) \<Rightarrow> (res, Log_new_notification notification # effs))))))"

text \<open>
  The callback that \<^verbatim>\<open>startListeningToNotifications\<close> registers for INSERT events on
  \<^verbatim>\<open>public.notifications\<close>: the \<^verbatim>\<open>try\<close> block, and the \<^verbatim>\<open>catch\<close> that logs.
\<close>

definition on_insert :: "services \<Rightarrow> jsval \<Rightarrow> (js_error + unit) \<times> effect list" where
  "on_insert env payload =
     (case process_notification env payload of
        (Inl e, effs) \<Rightarrow> (Inr (), effs @ [Log_processing_error e])
      | (Inr v, effs) \<Rightarrow> (Inr (), effs))"

text \<open>
  The subscription delivering a sequence of events to the callback, one after the other.
  A callback that throws ends the subscription (an unhandled rejection ends the
  process), and the remaining events are dropped.
\<close>

datatype subscription = Subscribed | Terminated js_error

fun deliver :: "services \<Rightarrow> jsval list \<Rightarrow> subscription \<times> effect list" where
  "deliver env [] = (Subscribed, [])"
| "deliver env (payload # rest) =
     (case on_insert env payload of
        (Inl e, effs) \<Rightarrow> (Terminated e, effs)
      | (Inr u, effs) \<Rightarrow> (case deliver env rest of (s, effs') \<Rightarrow> (s, effs @ effs')))"

section \<open>Evaluation and lookup lemmas\<close>

lemmas js_defs =
  js_or_def object_get_def own_property_def object_prototype_def object_prototype_names_def

lemmas dispatch_defs =
  sendNotification_def Let_def no_token_def fcm_token_of_def default_data_def
  build_message_def payload_data_def

lemma own_property_append:
  "own_property (ps @ qs) k =
     (case own_property qs k of Some v \<Rightarrow> Some v | None \<Rightarrow> own_property ps k)"
  unfolding own_property_def by (simp add: map_add_def)

lemma own_property_payload_data:
  "own_property (payload_data type title body data) k =
     (case own_property (own_enumerable data) k of
        Some v \<Rightarrow> Some v
      | None \<Rightarrow> own_property [(''type'', type), (''title'', title), (''body'', body)] k)"
  by (simp only: payload_data_def own_property_append)

lemma get_prop_message:
  "get_prop (build_message type title body data tok) ''data'' = JObj (payload_data type title body data)"
  "get_prop (build_message type title body data tok) ''token'' = tok"
  "get_prop (build_message type title body data tok) ''android'' = JObj [(''priority'', JStr ''high'')]"
  "get_prop (build_message type title body data tok) ''apns''
     = JObj [(''headers'', JObj [(''apns-priority'', JStr ''10'')])]"
  "get_prop (build_message type title body data tok) ''notification'' = JUndefined"
  by (simp_all add: build_message_def js_defs)

section \<open>Properties of the dispatcher\<close>

text \<open>The two paths of \<open>sendNotification\<close>, selected by the guard on the query's outcome.\<close>

lemma sendNotification_queried:
  "Profile_query u \<in> set (snd (sendNotification env userId title body type data))
     \<longleftrightarrow> u = userId \<and> printable type \<and> printable userId"
  by (auto simp: sendNotification_def Let_def split: sum.splits)

lemma sendNotification_absent:
  "printable type \<Longrightarrow> printable userId \<Longrightarrow> no_token (profile_query env userId) \<Longrightarrow>
   sendNotification env userId title body type data =
     (Inr JNull, [Log_sending type userId, Profile_query userId, Log_no_token userId])"
  by (simp add: sendNotification_def Let_def)

lemma sendNotification_sent:
  assumes "Messaging_send m \<in> set (snd (sendNotification env userId title body type data))"
  shows "\<not> no_token (profile_query env userId)"
    and "m = build_message type title body (default_data data)
               (get_prop (result_data (profile_query env userId)) ''fcm_token'')"
  using assms
  by (auto simp: sendNotification_def Let_def split: if_splits sum.splits)

lemma no_token_cases:
  "truthy (result_error r) \<or> nullish (result_data r)
     \<or> \<not> truthy (get_prop (result_data r) ''fcm_token'') \<Longrightarrow> no_token r"
  by (auto simp: no_token_def fcm_token_of_def)

text \<open>
  C1. When a run of \<open>sendNotification\<close> looks the user's profile up and the query reports
  an error, yields no record, or yields a record whose \<^verbatim>\<open>fcm_token\<close> is unset, the run
  returns \<^verbatim>\<open>null\<close>. It consists of the opening log line, the query and the no-token log
  line: the delivery service is not called, and no message (which is built only as the
  argument of that call) exists. Every run looks the profile up, except one whose
  opening log line cannot print \<open>type\<close> or \<open>userId\<close> (\<open>sendNotification_queried\<close>).
\<close>

theorem sendNotification_no_token:
  assumes "Profile_query userId \<in> set (snd (sendNotification env userId title body type data))"
      and "truthy (result_error (profile_query env userId))
           \<or> nullish (result_data (profile_query env userId))
           \<or> \<not> truthy (get_prop (result_data (profile_query env userId)) ''fcm_token'')"
  shows "sendNotification env userId title body type data =
           (Inr JNull, [Log_sending type userId, Profile_query userId, Log_no_token userId])
         \<and> (\<forall>m. Messaging_send m \<notin> set (snd (sendNotification env userId title body type data)))"
proof -
  from assms(1) have "printable type" "printable userId"
    by (simp_all add: sendNotification_queried)
  moreover from assms(2) have "no_token (profile_query env userId)"
    by (rule no_token_cases)
  ultimately show ?thesis
    by (simp add: sendNotification_absent)
qed

text \<open>The three cases at concrete inputs: no record, a record with a null token, a query error.\<close>

theorem sendNotification_no_token_witness:
  "(let env = \<lparr> profile_query = (\<lambda>u. \<lparr> result_data = JNull, result_error = JNull \<rparr>),
                messaging_send = (\<lambda>m. Inr ''id-1'') \<rparr>
    in sendNotification env (JStr ''u1'') (JStr ''t'') (JStr ''b'') (JStr ''like'') JUndefined)
     = (Inr JNull,
        [Log_sending (JStr ''like'') (JStr ''u1''), Profile_query (JStr ''u1''), Log_no_token (JStr ''u1'')])
   \<and> (let env = \<lparr> profile_query =
                       (\<lambda>u. \<lparr> result_data = JObj [(''fcm_token'', JNull)], result_error = JNull \<rparr>),
                     messaging_send = (\<lambda>m. Inr ''id-1'') \<rparr>
        in sendNotification env (JStr ''u1'') (JStr ''t'') (JStr ''b'') (JStr ''like'') JUndefined)
     = (Inr JNull,
        [Log_sending (JStr ''like'') (JStr ''u1''), Profile_query (JStr ''u1''), Log_no_token (JStr ''u1'')])
   \<and> (let env = \<lparr> profile_query =
                       (\<lambda>u. \<lparr> result_data = JNull,
                                result_error = JObj [(''message'', JStr ''fetch failed'')] \<rparr>),
                     messaging_send = (\<lambda>m. Inr ''id-1'') \<rparr>
        in sendNotification env (JStr ''u1'') (JStr ''t'') (JStr ''b'') (JStr ''like'') JUndefined)
     = (Inr JNull,
        [Log_sending (JStr ''like'') (JStr ''u1''), Profile_query (JStr ''u1''), Log_no_token (JStr ''u1'')])"
proof -
  let ?none = "\<lparr> profile_query = (\<lambda>u. \<lparr> result_data = JNull, result_error = JNull \<rparr>),
                 messaging_send = (\<lambda>m. Inr ''id-1'') \<rparr>"
  let ?unset = "\<lparr> profile_query =
                    (\<lambda>u. \<lparr> result_data = JObj [(''fcm_token'', JNull)], result_error = JNull \<rparr>),
                  messaging_send = (\<lambda>m. Inr ''id-1'') \<rparr>"
  let ?failed = "\<lparr> profile_query =
                     (\<lambda>u. \<lparr> result_data = JNull,
                              result_error = JObj [(''message'', JStr ''fetch failed'')] \<rparr>),
                   messaging_send = (\<lambda>m. Inr ''id-1'') \<rparr>"
  have queried: "Profile_query (JStr ''u1'')
                   \<in> set (snd (sendNotification env (JStr ''u1'') (JStr ''t'') (JStr ''b'') (JStr ''like'')
                                 JUndefined))" for env
    by (simp add: sendNotification_queried)
  have none: "nullish (result_data (profile_query ?none (JStr ''u1'')))"
    by simp
  have unset: "\<not> truthy (get_prop (result_data (profile_query ?unset (JStr ''u1''))) ''fcm_token'')"
    by (simp add: js_defs)
  have failed: "truthy (result_error (profile_query ?failed (JStr ''u1'')))"
    by simp
  show ?thesis
    using sendNotification_no_token [OF queried [of ?none]]
          sendNotification_no_token [OF queried [of ?unset]]
          sendNotification_no_token [OF queried [of ?failed]]
          none unset failed
    by (simp add: Let_def)
qed

text \<open>
  C7. The three ways a token can be missing (no profile record, a record whose token is
  unset, a failed query) are one outcome: two runs of \<open>sendNotification\<close> for the same
  arguments that look the profile up, each in one of these cases, return the same value
  (\<^verbatim>\<open>null\<close>) after the same effects, so the caller cannot tell which case occurred.
\<close>

theorem token_absence_indistinguishable:
  assumes "Profile_query userId \<in> set (snd (sendNotification env1 userId title body type data))"
      and "truthy (result_error (profile_query env1 userId))
           \<or> nullish (result_data (profile_query env1 userId))
           \<or> \<not> truthy (get_prop (result_data (profile_query env1 userId)) ''fcm_token'')"
      and "Profile_query userId \<in> set (snd (sendNotification env2 userId title body type data))"
      and "truthy (result_error (profile_query env2 userId))
           \<or> nullish (result_data (profile_query env2 userId))
           \<or> \<not> truthy (get_prop (result_data (profile_query env2 userId)) ''fcm_token'')"
  shows "sendNotification env1 userId title body type data
           = sendNotification env2 userId title body type data
         \<and> fst (sendNotification env1 userId title body type data) = Inr JNull"
proof -
  from assms(1) have "printable type" "printable userId"
    by (simp_all add: sendNotification_queried)
  moreover have "no_token (profile_query env1 userId)" "no_token (profile_query env2 userId)"
    using assms(2,4) by (auto intro: no_token_cases)
  ultimately show ?thesis
    by (simp add: sendNotification_absent)
qed

theorem token_absence_indistinguishable_witness:
  "sendNotification
     \<lparr> profile_query = (\<lambda>u. \<lparr> result_data = JNull, result_error = JNull \<rparr>),
       messaging_send = (\<lambda>m. Inr ''id-1'') \<rparr>
     (JStr ''u1'') (JStr ''t'') (JStr ''b'') (JStr ''like'') JUndefined
   = sendNotification
     \<lparr> profile_query = (\<lambda>u. \<lparr> result_data = JObj [(''fcm_token'', JNull)], result_error = JNull \<rparr>),
       messaging_send = (\<lambda>m. Inr ''id-1'') \<rparr>
     (JStr ''u1'') (JStr ''t'') (JStr ''b'') (JStr ''like'') JUndefined
   \<and> sendNotification
     \<lparr> profile_query = (\<lambda>u. \<lparr> result_data = JObj [(''fcm_token'', JNull)], result_error = JNull \<rparr>),
       messaging_send = (\<lambda>m. Inr ''id-1'') \<rparr>
     (JStr ''u1'') (JStr ''t'') (JStr ''b'') (JStr ''like'') JUndefined
   = sendNotification
     \<lparr> profile_query =
         (\<lambda>u. \<lparr> result_data = JNull, result_error = JObj [(''message'', JStr ''fetch failed'')] \<rparr>),
       messaging_send = (\<lambda>m. Inr ''id-1'') \<rparr>
     (JStr ''u1'') (JStr ''t'') (JStr ''b'') (JStr ''like'') JUndefined"
proof -
  let ?none = "\<lparr> profile_query = (\<lambda>u. \<lparr> result_data = JNull, result_error = JNull \<rparr>),
                 messaging_send = (\<lambda>m. Inr ''id-1'') \<rparr>"
  let ?unset = "\<lparr> profile_query =
                    (\<lambda>u. \<lparr> result_data = JObj [(''fcm_token'', JNull)], result_error = JNull \<rparr>),
                  messaging_send = (\<lambda>m. Inr ''id-1'') \<rparr>"
  let ?failed = "\<lparr> profile_query =
                     (\<lambda>u. \<lparr> result_data = JNull,
                              result_error = JObj [(''message'', JStr ''fetch failed'')] \<rparr>),
                   messaging_send = (\<lambda>m. Inr ''id-1'') \<rparr>"
  have queried: "Profile_query (JStr ''u1'')
                   \<in> set (snd (sendNotification env (JStr ''u1'') (JStr ''t'') (JStr ''b'') (JStr ''like'')
                                 JUndefined))" for env
    by (simp add: sendNotification_queried)
  have none: "nullish (result_data (profile_query ?none (JStr ''u1'')))"
    by simp
  have unset: "\<not> truthy (get_prop (result_data (profile_query ?unset (JStr ''u1''))) ''fcm_token'')"
    by (simp add: js_defs)
  have failed: "truthy (result_error (profile_query ?failed (JStr ''u1'')))"
    by simp
  show ?thesis
    using token_absence_indistinguishable [OF queried [of ?none] _ queried [of ?unset]]
          token_absence_indistinguishable [OF queried [of ?unset] _ queried [of ?failed]]
          none unset failed
    by blast
qed

text \<open>
  C8. In a run of \<open>sendNotification\<close> that calls the delivery service with message \<open>m\<close>:
  if the call rejects with \<open>e\<close>, the run logs \<open>e\<close> and throws that same \<open>e\<close> to its caller;
  if it resolves to an identifier, the run returns that identifier unchanged. Either
  way the run is the opening log, the query, one delivery call and one closing log
  line: the call is not repeated and nothing is queued.
\<close>

theorem sendNotification_delivery_outcome:
  assumes "sendNotification env userId title body type data = (res, effs)"
      and "Messaging_send m \<in> set effs"
  shows "(\<forall>e. messaging_send env m = Inl e \<longrightarrow>
            res = Inl e \<and>
            effs = [Log_sending type userId, Profile_query userId, Messaging_send m, Log_send_error e])
       \<and> (\<forall>response. messaging_send env m = Inr response \<longrightarrow>
            res = Inr (JStr response) \<and>
            effs = [Log_sending type userId, Profile_query userId, Messaging_send m, Log_sent response])"
  using assms
  by (auto simp: sendNotification_def Let_def split: if_splits sum.splits)

theorem sendNotification_delivery_outcome_witness:
  "sendNotification
     \<lparr> profile_query =
         (\<lambda>u. \<lparr> result_data = JObj [(''fcm_token'', JStr ''tok-1'')], result_error = JNull \<rparr>),
       messaging_send = (\<lambda>m. Inl (Error ''Requested entity was not found.'')) \<rparr>
     (JStr ''u1'') (JStr ''t'') (JStr ''b'') (JStr ''like'') JUndefined
   = (Inl (Error ''Requested entity was not found.''),
      [Log_sending (JStr ''like'') (JStr ''u1''), Profile_query (JStr ''u1''),
       Messaging_send
         (build_message (JStr ''like'') (JStr ''t'') (JStr ''b'') (JObj []) (JStr ''tok-1'')),
       Log_send_error (Error ''Requested entity was not found.'')])
   \<and> sendNotification
     \<lparr> profile_query =
         (\<lambda>u. \<lparr> result_data = JObj [(''fcm_token'', JStr ''tok-1'')], result_error = JNull \<rparr>),
       messaging_send = (\<lambda>m. Inr ''projects/p/messages/1'') \<rparr>
     (JStr ''u1'') (JStr ''t'') (JStr ''b'') (JStr ''like'') JUndefined
   = (Inr (JStr ''projects/p/messages/1''),
      [Log_sending (JStr ''like'') (JStr ''u1''), Profile_query (JStr ''u1''),
       Messaging_send
         (build_message (JStr ''like'') (JStr ''t'') (JStr ''b'') (JObj []) (JStr ''tok-1'')),
       Log_sent ''projects/p/messages/1''])"
proof -
  let ?q = "\<lambda>u::jsval. \<lparr> result_data = JObj [(''fcm_token'', JStr ''tok-1'')], result_error = JNull \<rparr>"
  let ?bad = "\<lparr> profile_query = ?q,
                messaging_send = (\<lambda>m. Inl (Error ''Requested entity was not found.'')) \<rparr>"
  let ?good = "\<lparr> profile_query = ?q, messaging_send = (\<lambda>m. Inr ''projects/p/messages/1'') \<rparr>"
  let ?m = "build_message (JStr ''like'') (JStr ''t'') (JStr ''b'') (JObj []) (JStr ''tok-1'')"
  obtain res effs where bad:
    "sendNotification ?bad (JStr ''u1'') (JStr ''t'') (JStr ''b'') (JStr ''like'') JUndefined = (res, effs)"
    by (cases "sendNotification ?bad (JStr ''u1'') (JStr ''t'') (JStr ''b'') (JStr ''like'') JUndefined")
  have bad_sent: "Messaging_send ?m \<in> set effs"
    using bad by (auto simp: dispatch_defs js_defs)
  obtain res' effs' where good:
    "sendNotification ?good (JStr ''u1'') (JStr ''t'') (JStr ''b'') (JStr ''like'') JUndefined = (res', effs')"
    by (cases "sendNotification ?good (JStr ''u1'') (JStr ''t'') (JStr ''b'') (JStr ''like'') JUndefined")
  have good_sent: "Messaging_send ?m \<in> set effs'"
    using good by (auto simp: dispatch_defs js_defs)
  show ?thesis
    using sendNotification_delivery_outcome [OF bad bad_sent]
          sendNotification_delivery_outcome [OF good good_sent] bad good
    by simp
qed

text \<open>
  C2. Every message that \<open>sendNotification\<close> hands to the delivery service has exactly
  the fields \<^verbatim>\<open>data\<close>, \<^verbatim>\<open>token\<close>, \<^verbatim>\<open>android\<close> and \<^verbatim>\<open>apns\<close>: reading \<^verbatim>\<open>notification\<close> from it
  yields \<^verbatim>\<open>undefined\<close>. The token is the profile's \<^verbatim>\<open>fcm_token\<close>, the hints are android
  priority \<^verbatim>\<open>high\<close> and the header \<^verbatim>\<open>apns-priority\<close> \<^verbatim>\<open>10\<close>, and the \<^verbatim>\<open>data\<close> mapping holds
  every pair of the auxiliary data and otherwise \<^verbatim>\<open>type\<close>, \<^verbatim>\<open>title\<close> and \<^verbatim>\<open>body\<close>.
\<close>

theorem message_is_data_only:
  assumes "Messaging_send m \<in> set (snd (sendNotification env userId title body type data))"
  shows "get_prop m ''notification'' = JUndefined
       \<and> (\<exists>ps. m = JObj ps \<and> map fst ps = [''data'', ''token'', ''android'', ''apns''])
       \<and> get_prop m ''token'' = get_prop (result_data (profile_query env userId)) ''fcm_token''
       \<and> get_prop m ''android'' = JObj [(''priority'', JStr ''high'')]
       \<and> get_prop m ''apns'' = JObj [(''headers'', JObj [(''apns-priority'', JStr ''10'')])]
       \<and> (\<exists>d. get_prop m ''data'' = JObj d \<and>
              (\<forall>k. own_property d k =
                 (case own_property (own_enumerable (default_data data)) k of
                    Some v \<Rightarrow> Some v
                  | None \<Rightarrow> own_property [(''type'', type), (''title'', title), (''body'', body)] k)))"
proof -
  let ?tok = "get_prop (result_data (profile_query env userId)) ''fcm_token''"
  have m: "m = build_message type title body (default_data data) ?tok"
    using assms by (rule sendNotification_sent)
  have keys: "\<exists>ps. m = JObj ps \<and> map fst ps = [''data'', ''token'', ''android'', ''apns'']"
    by (simp add: m build_message_def)
  have d: "get_prop m ''data'' = JObj (payload_data type title body (default_data data))"
    by (simp add: m get_prop_message)
  show ?thesis
    using keys
    by (simp add: d own_property_payload_data) (simp add: m get_prop_message)
qed

theorem message_is_data_only_witness:
  "Messaging_send
     (build_message (JStr ''like'') (JStr ''t'') (JStr ''b'') (JObj [(''post_id'', JStr ''p9'')])
        (JStr ''tok-1''))
     \<in> set (snd (sendNotification
                  \<lparr> profile_query =
                      (\<lambda>u. \<lparr> result_data = JObj [(''fcm_token'', JStr ''tok-1'')],
                               result_error = JNull \<rparr>),
                    messaging_send = (\<lambda>m. Inr ''projects/p/messages/1'') \<rparr>
                  (JStr ''u1'') (JStr ''t'') (JStr ''b'') (JStr ''like'')
                  (JObj [(''post_id'', JStr ''p9'')])))
   \<and> get_prop
       (build_message (JStr ''like'') (JStr ''t'') (JStr ''b'') (JObj [(''post_id'', JStr ''p9'')])
          (JStr ''tok-1''))
       ''notification'' = JUndefined
   \<and> get_prop
       (build_message (JStr ''like'') (JStr ''t'') (JStr ''b'') (JObj [(''post_id'', JStr ''p9'')])
          (JStr ''tok-1''))
       ''token'' = JStr ''tok-1''"
proof -
  let ?env = "\<lparr> profile_query =
                  (\<lambda>u. \<lparr> result_data = JObj [(''fcm_token'', JStr ''tok-1'')], result_error = JNull \<rparr>),
                messaging_send = (\<lambda>m. Inr ''projects/p/messages/1'') \<rparr>"
  let ?d = "JObj [(''post_id'', JStr ''p9'')]"
  let ?m = "build_message (JStr ''like'') (JStr ''t'') (JStr ''b'') ?d (JStr ''tok-1'')"
  have sent: "Messaging_send ?m
                \<in> set (snd (sendNotification ?env (JStr ''u1'') (JStr ''t'') (JStr ''b'') (JStr ''like'') ?d))"
    by (simp add: dispatch_defs js_defs)
  show ?thesis
    using message_is_data_only [OF sent] sent by (simp add: js_defs)
qed

text \<open>
  C10. In every message that \<open>sendNotification\<close> hands to the delivery service, a key
  \<^verbatim>\<open>type\<close>, \<^verbatim>\<open>title\<close> or \<^verbatim>\<open>body\<close> of the auxiliary data overrides the argument of that name:
  the \<^verbatim>\<open>data\<close> mapping holds the auxiliary value, because the spread comes after the
  three base fields.
\<close>

theorem aux_data_overrides_base_fields:
  assumes "Messaging_send m \<in> set (snd (sendNotification env userId title body type data))"
      and "k \<in> {''type'', ''title'', ''body''}"
      and "own_property (own_enumerable data) k = Some v"
  shows "get_prop (get_prop m ''data'') k = v"
proof -
  have "data \<noteq> JUndefined"
    using assms(3) by (auto simp: own_property_def)
  then have dd: "default_data data = data"
    by (simp add: default_data_def)
  have "m = build_message type title body (default_data data)
              (get_prop (result_data (profile_query env userId)) ''fcm_token'')"
    using assms(1) by (rule sendNotification_sent)
  then have "get_prop m ''data'' = JObj (payload_data type title body data)"
    by (simp add: get_prop_message dd)
  then show ?thesis
    using assms(3) by (simp add: object_get_def own_property_payload_data)
qed

theorem aux_data_overrides_base_fields_witness:
  "Messaging_send
     (build_message (JStr ''like'') (JStr ''t'') (JStr ''b'') (JObj [(''title'', JStr ''from data'')])
        (JStr ''tok-1''))
     \<in> set (snd (sendNotification
                  \<lparr> profile_query =
                      (\<lambda>u. \<lparr> result_data = JObj [(''fcm_token'', JStr ''tok-1'')],
                               result_error = JNull \<rparr>),
                    messaging_send = (\<lambda>m. Inr ''projects/p/messages/1'') \<rparr>
                  (JStr ''u1'') (JStr ''t'') (JStr ''b'') (JStr ''like'')
                  (JObj [(''title'', JStr ''from data'')])))
   \<and> get_prop
       (get_prop
          (build_message (JStr ''like'') (JStr ''t'') (JStr ''b'')
             (JObj [(''title'', JStr ''from data'')]) (JStr ''tok-1''))
          ''data'')
       ''title'' = JStr ''from data''"
proof -
  let ?env = "\<lparr> profile_query =
                  (\<lambda>u. \<lparr> result_data = JObj [(''fcm_token'', JStr ''tok-1'')], result_error = JNull \<rparr>),
                messaging_send = (\<lambda>m. Inr ''projects/p/messages/1'') \<rparr>"
  let ?d = "JObj [(''title'', JStr ''from data'')]"
  let ?m = "build_message (JStr ''like'') (JStr ''t'') (JStr ''b'') ?d (JStr ''tok-1'')"
  have sent: "Messaging_send ?m
                \<in> set (snd (sendNotification ?env (JStr ''u1'') (JStr ''t'') (JStr ''b'') (JStr ''like'') ?d))"
    by (simp add: dispatch_defs js_defs)
  have key: "''title'' \<in> {''type'', ''title'', ''body''}"
    by simp
  have own: "own_property (own_enumerable ?d) ''title'' = Some (JStr ''from data'')"
    by (simp add: own_property_def)
  show ?thesis
    using aux_data_overrides_base_fields [OF sent key own] sent by simp
qed

section \<open>Properties of the HTTP surface\<close>



lemma object_get_missing:
  "own_property kvs k = None \<Longrightarrow> k \<notin> set object_prototype_names \<Longrightarrow> object_get kvs k = JUndefined"
  by (simp add: object_get_def object_prototype_def)

lemma post_notifications_send_rejected:
  assumes "\<not> truthy (object_get kvs ''userId'') \<or> \<not> truthy (object_get kvs ''title'')
           \<or> \<not> truthy (object_get kvs ''body'') \<or> \<not> truthy (object_get kvs ''type'')"
  shows "post_notifications_send env (JObj kvs)
           = (Response 400 (JObj [(''error'', JStr ''Missing required fields'')]), [])"
  using assms by (auto simp: post_notifications_send_def destructurable_def Let_def)

lemma post_notifications_send_dispatched:
  assumes "truthy (object_get kvs ''userId'')" "truthy (object_get kvs ''title'')"
          "truthy (object_get kvs ''body'')" "truthy (object_get kvs ''type'')"
  shows "post_notifications_send env (JObj kvs) =
           (case sendNotification env (object_get kvs ''userId'') (object_get kvs ''title'')
                   (object_get kvs ''body'') (object_get kvs ''type'') (object_get kvs ''data'') of
              (Inr messageId, effs) \<Rightarrow>
                (Response 200 (JObj [(''success'', JBool True), (''messageId'', messageId)]), effs)
            | (Inl e, effs) \<Rightarrow> (Response 500 (JObj [(''error'', JStr (message e))]), effs))"
  using assms by (simp add: post_notifications_send_def destructurable_def Let_def)






text \<open>
  C9. The validation tests truthiness, not the presence of a key: a request whose body
  holds a falsy \<^verbatim>\<open>userId\<close>, \<^verbatim>\<open>title\<close>, \<^verbatim>\<open>body\<close> or \<^verbatim>\<open>type\<close> (the empty string, \<^verbatim>\<open>null\<close>, \<^verbatim>\<open>0\<close>,
  \<^verbatim>\<open>false\<close>), present or not, gets 400 with \<^verbatim>\<open>{error: "Missing required fields"}\<close>, and the
  run has no effect: \<open>sendNotification\<close> is not invoked.
\<close>

theorem falsy_field_rejected:
  assumes "\<exists>k \<in> {''userId'', ''title'', ''body'', ''type''}. \<not> truthy (object_get kvs k)"
  shows "post_notifications_send env (JObj kvs)
           = (Response 400 (JObj [(''error'', JStr ''Missing required fields'')]), [])"
  using assms by (intro post_notifications_send_rejected) auto


theorem falsy_field_rejected_witness:
  "post_notifications_send
     \<lparr> profile_query =
         (\<lambda>u. \<lparr> result_data = JObj [(''fcm_token'', JStr ''tok-1'')], result_error = JNull \<rparr>),
       messaging_send = (\<lambda>m. Inr ''projects/p/messages/1'') \<rparr>
     (JObj [(''userId'', JStr ''u1''), (''title'', JStr []), (''body'', JStr ''b''),
            (''type'', JStr ''like'')])
   = (Response 400 (JObj [(''error'', JStr ''Missing required fields'')]), [])"
proof -
  have "\<exists>k \<in> {''userId'', ''title'', ''body'', ''type''}.
          \<not> truthy (object_get [(''userId'', JStr ''u1''), (''title'', JStr []), (''body'', JStr ''b''),
                                 (''type'', JStr ''like'')] k)"
    by (simp add: js_defs)
  then show ?thesis
    by (rule falsy_field_rejected)
qed

section \<open>Properties of the formatter\<close>

lemmas formatter_defs =
  getTitleForType_def getMessageForType_def to_property_key_def titles_def messages_def

text \<open>The five categories have their fixed title and body.\<close>

lemma formatter_recognized:
  "getTitleForType (JStr ''like'')
     = Inr (JStr ([CHR 0xE2, CHR 0x9D, CHR 0xA4, CHR 0xEF, CHR 0xB8, CHR 0x8F] @ '' New Like''))"
  "getTitleForType (JStr ''comment'')
     = Inr (JStr ([CHR 0xF0, CHR 0x9F, CHR 0x92, CHR 0xAC] @ '' New Comment''))"
  "getTitleForType (JStr ''follow'')
     = Inr (JStr ([CHR 0xF0, CHR 0x9F, CHR 0x91, CHR 0xA4] @ '' New Follower''))"
  "getTitleForType (JStr ''reply'')
     = Inr (JStr ([CHR 0xE2, CHR 0x86, CHR 0xA9, CHR 0xEF, CHR 0xB8, CHR 0x8F] @ '' New Reply''))"
  "getTitleForType (JStr ''mention'')
     = Inr (JStr ([CHR ''@'', CHR 0xEF, CHR 0xB8, CHR 0x8F] @ '' Mention''))"
  "getMessageForType (JStr ''like'') = Inr (JStr ''Someone liked your post'')"
  "getMessageForType (JStr ''comment'') = Inr (JStr ''Someone commented on your post'')"
  "getMessageForType (JStr ''follow'') = Inr (JStr ''Someone started following you'')"
  "getMessageForType (JStr ''reply'') = Inr (JStr ''Someone replied to your comment'')"
  "getMessageForType (JStr ''mention'') = Inr (JStr ''Someone mentioned you'')"
  by (simp_all add: formatter_defs js_defs)

text \<open>
  Any other category that converts to a key gets the fallback, unless the key names a
  member inherited from \<^verbatim>\<open>Object.prototype\<close>.
\<close>

lemma formatter_fallback:
  assumes "printable type"
      and "to_string type \<notin> {''like'', ''comment'', ''follow'', ''reply'', ''mention''}"
      and "to_string type \<notin> set object_prototype_names"
  shows "getTitleForType type = Inr (JStr ''New Notification'')"
    and "getMessageForType type = Inr (JStr ''You have a new notification'')"
  using assms
  by (simp_all add: formatter_defs js_or_def object_get_def own_property_def object_prototype_def)

lemma formatter_absent:
  "getTitleForType JUndefined = Inr (JStr ''New Notification'')"
  "getMessageForType JUndefined = Inr (JStr ''You have a new notification'')"
  "getTitleForType JNull = Inr (JStr ''New Notification'')"
  "getMessageForType JNull = Inr (JStr ''You have a new notification'')"
  by (simp_all add: formatter_defs js_defs)

text \<open>A category that cannot be converted to a key makes both functions throw.\<close>

lemma formatter_unprintable:
  "getTitleForType (JObj [(''toString'', JNum 1)]) = Inl cannot_convert"
  "getMessageForType (JObj [(''toString'', JNum 1)]) = Inl cannot_convert"
  by (simp_all add: formatter_defs js_defs)

text \<open>
  C5. The formatter does not return the generic fallback for every unrecognised
  category. The lookups \<^verbatim>\<open>titles[type]\<close> and \<^verbatim>\<open>messages[type]\<close> also find the members that
  the two object literals inherit from \<^verbatim>\<open>Object.prototype\<close>; these are truthy, so for the
  category \<^verbatim>\<open>constructor\<close> both functions return the inherited member instead of
  \<^verbatim>\<open>New Notification\<close> and \<^verbatim>\<open>You have a new notification\<close>.
\<close>

theorem formatter_inherited_member:
  "getTitleForType (JStr ''constructor'') = Inr (JBuiltin ''constructor'')
   \<and> getTitleForType (JStr ''constructor'') \<noteq> Inr (JStr ''New Notification'')
   \<and> getMessageForType (JStr ''constructor'') = Inr (JBuiltin ''constructor'')
   \<and> getMessageForType (JStr ''constructor'') \<noteq> Inr (JStr ''You have a new notification'')"
  by (simp add: formatter_defs js_defs)

section \<open>Properties of the listener\<close>

lemmas listener_defs =
  on_insert_def process_notification_def read_new_def destructurable_def aux_data_def
  or_default_def formatter_defs

lemma on_insert_returns: "fst (on_insert env payload) = Inr ()"
  by (simp add: on_insert_def split: prod.splits sum.splits)

lemma on_insert_caught:
  "fst (process_notification env payload) = Inl e \<Longrightarrow>
   snd (on_insert env payload) = snd (process_notification env payload) @ [Log_processing_error e]"
  by (cases "process_notification env payload") (simp add: on_insert_def)

lemma sendNotification_rejected:
  "Messaging_send m \<in> set (snd (sendNotification env userId title body type data)) \<Longrightarrow>
   messaging_send env m = Inl e \<Longrightarrow>
   fst (sendNotification env userId title body type data) = Inl e"
  by (auto simp: sendNotification_def Let_def split: if_splits sum.splits)

lemma process_notification_sent:
  assumes "Messaging_send m \<in> set (snd (process_notification env payload))"
  shows "\<exists>title body.
           Messaging_send m
             \<in> set (snd (sendNotification env (get_prop (get_prop payload ''new'') ''user_id'') title body
                           (get_prop (get_prop payload ''new'') ''type'')
                           (aux_data (get_prop payload ''new''))))
           \<and> fst (process_notification env payload)
               = fst (sendNotification env (get_prop (get_prop payload ''new'') ''user_id'') title body
                        (get_prop (get_prop payload ''new'') ''type'')
                        (aux_data (get_prop payload ''new'')))"
proof -
  let ?n = "get_prop payload ''new''"
  let ?call = "\<lambda>title body. sendNotification env (get_prop ?n ''user_id'') title body
                               (get_prop ?n ''type'') (aux_data ?n)"
  from assms have ok: "\<not> nullish payload" "\<not> nullish ?n"
    by (auto simp: process_notification_def read_new_def destructurable_def split: if_splits)
  from assms ok obtain t b where
    t: "or_default (get_prop ?n ''title'') getTitleForType (get_prop ?n ''type'') = Inr t" and
    b: "or_default (get_prop ?n ''message'') getMessageForType (get_prop ?n ''type'') = Inr b"
    by (auto simp: process_notification_def read_new_def destructurable_def Let_def
             split: sum.splits)
  have run: "process_notification env payload
               = (fst (?call t b), Log_new_notification ?n # snd (?call t b))"
    using ok t b
    by (simp add: process_notification_def read_new_def destructurable_def Let_def
             split: prod.splits)
  have "Messaging_send m \<in> set (snd (?call t b))"
    using assms by (simp add: run)
  moreover have "fst (process_notification env payload) = fst (?call t b)"
    by (simp add: run)
  ultimately show ?thesis
    by blast
qed

lemma on_insert_sent:
  "Messaging_send m \<in> set (snd (on_insert env payload)) \<Longrightarrow>
   Messaging_send m \<in> set (snd (process_notification env payload))"
  by (cases "process_notification env payload") (auto simp: on_insert_def split: sum.splits)

lemma deliver_all:
  "deliver env payloads = (Subscribed, concat (map (\<lambda>p. snd (on_insert env p)) payloads))"
proof (induction payloads)
  case Nil
  show ?case by simp
next
  case (Cons p ps)
  obtain effs where "on_insert env p = (Inr (), effs)"
    using on_insert_returns [of env p] by (cases "on_insert env p") auto
  with Cons show ?case
    by simp
qed

text \<open>
  C6. The listener's callback never throws: whatever the event and the services do, it
  returns normally. When the processing of an event throws \<open>e\<close>, the callback's last
  effect is the log line for \<open>e\<close>; in particular a delivery call that rejects with \<open>e\<close> is
  logged so. Hence the subscription stays up over any sequence of events, and every
  event of the sequence is processed: the effects are those of all callbacks, in order.
\<close>

theorem listener_survives_failures:
  "fst (on_insert env payload) = Inr ()
   \<and> (\<forall>e. fst (process_notification env payload) = Inl e \<longrightarrow>
         snd (on_insert env payload) = snd (process_notification env payload) @ [Log_processing_error e])
   \<and> (\<forall>m e. Messaging_send m \<in> set (snd (on_insert env payload)) \<and> messaging_send env m = Inl e \<longrightarrow>
         Log_processing_error e \<in> set (snd (on_insert env payload)))
   \<and> deliver env payloads = (Subscribed, concat (map (\<lambda>p. snd (on_insert env p)) payloads))"
proof -
  have "Log_processing_error e \<in> set (snd (on_insert env payload))"
    if sent: "Messaging_send m \<in> set (snd (on_insert env payload))"
      and rejected: "messaging_send env m = Inl e" for m e
  proof -
    from sent have "Messaging_send m \<in> set (snd (process_notification env payload))"
      by (rule on_insert_sent)
    then have "fst (process_notification env payload) = Inl e"
      using rejected
      by (auto dest!: process_notification_sent dest: sendNotification_rejected)
    then show ?thesis
      by (simp add: on_insert_caught)
  qed
  then show ?thesis
    by (simp add: on_insert_returns on_insert_caught deliver_all) blast
qed


theorem listener_survives_failures_witness:
  "fst (deliver
          \<lparr> profile_query =
              (\<lambda>u. \<lparr> result_data =
                         JObj [(''fcm_token'', if u = JStr ''u1'' then JStr ''tok-bad'' else JStr ''tok-2'')],
                       result_error = JNull \<rparr>),
            messaging_send =
              (\<lambda>m. if get_prop m ''token'' = JStr ''tok-bad''
                    then Inl (Error ''Requested entity was not found.'') else Inr ''id-2'') \<rparr>
          [JObj [(''new'', JObj [(''user_id'', JStr ''u1''), (''type'', JStr ''like'')])],
           JObj [(''new'', JObj [(''user_id'', JStr ''u2''), (''type'', JStr ''follow'')])]])
     = Subscribed
   \<and> Log_processing_error (Error ''Requested entity was not found.'')
       \<in> set (snd (deliver
          \<lparr> profile_query =
              (\<lambda>u. \<lparr> result_data =
                         JObj [(''fcm_token'', if u = JStr ''u1'' then JStr ''tok-bad'' else JStr ''tok-2'')],
                       result_error = JNull \<rparr>),
            messaging_send =
              (\<lambda>m. if get_prop m ''token'' = JStr ''tok-bad''
                    then Inl (Error ''Requested entity was not found.'') else Inr ''id-2'') \<rparr>
          [JObj [(''new'', JObj [(''user_id'', JStr ''u1''), (''type'', JStr ''like'')])],
           JObj [(''new'', JObj [(''user_id'', JStr ''u2''), (''type'', JStr ''follow'')])]]))
   \<and> Log_sent ''id-2''
       \<in> set (snd (deliver
          \<lparr> profile_query =
              (\<lambda>u. \<lparr> result_data =
                         JObj [(''fcm_token'', if u = JStr ''u1'' then JStr ''tok-bad'' else JStr ''tok-2'')],
                       result_error = JNull \<rparr>),
            messaging_send =
              (\<lambda>m. if get_prop m ''token'' = JStr ''tok-bad''
                    then Inl (Error ''Requested entity was not found.'') else Inr ''id-2'') \<rparr>
          [JObj [(''new'', JObj [(''user_id'', JStr ''u1''), (''type'', JStr ''like'')])],
           JObj [(''new'', JObj [(''user_id'', JStr ''u2''), (''type'', JStr ''follow'')])]]))"
proof -
  let ?env = "\<lparr> profile_query =
              (\<lambda>u. \<lparr> result_data =
                         JObj [(''fcm_token'', if u = JStr ''u1'' then JStr ''tok-bad'' else JStr ''tok-2'')],
                       result_error = JNull \<rparr>),
            messaging_send =
              (\<lambda>m. if get_prop m ''token'' = JStr ''tok-bad''
                    then Inl (Error ''Requested entity was not found.'') else Inr ''id-2'') \<rparr>"
  let ?p1 = "JObj [(''new'', JObj [(''user_id'', JStr ''u1''), (''type'', JStr ''like'')])]"
  let ?p2 = "JObj [(''new'', JObj [(''user_id'', JStr ''u2''), (''type'', JStr ''follow'')])]"
  have all: "deliver ?env [?p1, ?p2] = (Subscribed, snd (on_insert ?env ?p1) @ snd (on_insert ?env ?p2))"
    using listener_survives_failures [of ?env ?p1 "[?p1, ?p2]"] by simp
  have first: "Log_processing_error (Error ''Requested entity was not found.'')
                 \<in> set (snd (on_insert ?env ?p1))"
    by (simp add: listener_defs dispatch_defs js_defs)
  have second: "Log_sent ''id-2'' \<in> set (snd (on_insert ?env ?p2))"
    by (simp add: listener_defs dispatch_defs js_defs)
  show ?thesis
    unfolding all using first second by simp
qed

text \<open>
  The listener does not coerce the related-entity identifiers to strings: for an event
  with the numeric \<^verbatim>\<open>post_id\<close> 42 the delivered \<^verbatim>\<open>data\<close> mapping holds the number 42.
\<close>

theorem aux_value_not_coerced:
  "Messaging_send
     (build_message (JStr ''like'')
        (JStr ([CHR 0xE2, CHR 0x9D, CHR 0xA4, CHR 0xEF, CHR 0xB8, CHR 0x8F] @ '' New Like''))
        (JStr ''Someone liked your post'')
        (JObj [(''post_id'', JNum 42), (''comment_id'', JStr []), (''sender_id'', JStr [])])
        (JStr ''tok-1''))
     \<in> set (snd (on_insert
                  \<lparr> profile_query =
                      (\<lambda>u. \<lparr> result_data = JObj [(''fcm_token'', JStr ''tok-1'')],
                               result_error = JNull \<rparr>),
                    messaging_send = (\<lambda>m. Inr ''projects/p/messages/1'') \<rparr>
                  (JObj [(''new'', JObj [(''user_id'', JStr ''u1''), (''type'', JStr ''like''),
                                         (''post_id'', JNum 42)])])))
   \<and> get_prop
       (get_prop
          (build_message (JStr ''like'')
             (JStr ([CHR 0xE2, CHR 0x9D, CHR 0xA4, CHR 0xEF, CHR 0xB8, CHR 0x8F] @ '' New Like''))
        (JStr ''Someone liked your post'')
             (JObj [(''post_id'', JNum 42), (''comment_id'', JStr []), (''sender_id'', JStr [])])
             (JStr ''tok-1''))
          ''data'')
       ''post_id'' = JNum 42
   \<and> \<not> is_string (JNum 42)"
  by (simp add: listener_defs dispatch_defs js_defs)

text \<open>
  C4, amended. For every feed event, the auxiliary data passed to the dispatcher has
  exactly the keys \<^verbatim>\<open>post_id\<close>, \<^verbatim>\<open>comment_id\<close> and \<^verbatim>\<open>sender_id\<close>. Each value is the event's
  own value when that is truthy and the empty string otherwise, so an identifier absent
  from the event maps to the empty string, never to an absent key. The same holds of
  the \<^verbatim>\<open>data\<close> mapping of every message delivered for the event. No coercion is applied:
  a value is a string whenever the event's identifier is a string or is falsy.
\<close>

theorem aux_data_of_event:
  "map fst (own_enumerable (aux_data n)) = [''post_id'', ''comment_id'', ''sender_id'']
   \<and> (\<forall>k \<in> {''post_id'', ''comment_id'', ''sender_id''}.
         get_prop (aux_data n) k = (if truthy (get_prop n k) then get_prop n k else JStr []))
   \<and> (\<forall>m. Messaging_send m \<in> set (snd (on_insert env payload)) \<longrightarrow>
         (\<forall>k \<in> {''post_id'', ''comment_id'', ''sender_id''}.
            \<exists>d v. get_prop m ''data'' = JObj d \<and> own_property d k = Some v \<and>
                  v = (if truthy (get_prop (get_prop payload ''new'') k)
                       then get_prop (get_prop payload ''new'') k else JStr []) \<and>
                  (is_string (get_prop (get_prop payload ''new'') k)
                     \<or> \<not> truthy (get_prop (get_prop payload ''new'') k) \<longrightarrow> is_string v)))"
proof -
  have keys: "map fst (own_enumerable (aux_data n)) = [''post_id'', ''comment_id'', ''sender_id'']" for n
    by (simp add: aux_data_def)
  have own: "own_property (own_enumerable (aux_data n)) k
               = Some (if truthy (get_prop n k) then get_prop n k else JStr [])"
    if "k \<in> {''post_id'', ''comment_id'', ''sender_id''}" for n k
    using that by (auto simp: aux_data_def own_property_def js_or_def)
  have vals: "get_prop (aux_data n) k = (if truthy (get_prop n k) then get_prop n k else JStr [])"
    if "k \<in> {''post_id'', ''comment_id'', ''sender_id''}" for k
    using own [OF that, of n] by (simp add: aux_data_def object_get_def)
  have sent: "\<exists>d v. get_prop m ''data'' = JObj d \<and> own_property d k = Some v \<and>
                  v = (if truthy (get_prop (get_prop payload ''new'') k)
                       then get_prop (get_prop payload ''new'') k else JStr []) \<and>
                  (is_string (get_prop (get_prop payload ''new'') k)
                     \<or> \<not> truthy (get_prop (get_prop payload ''new'') k) \<longrightarrow> is_string v)"
    if m: "Messaging_send m \<in> set (snd (on_insert env payload))"
      and k: "k \<in> {''post_id'', ''comment_id'', ''sender_id''}" for m k
  proof -
    let ?n = "get_prop payload ''new''"
    from m have "Messaging_send m \<in> set (snd (process_notification env payload))"
      by (rule on_insert_sent)
    then obtain u t b ty where
      "Messaging_send m \<in> set (snd (sendNotification env u t b ty (aux_data ?n)))"
      by (auto dest!: process_notification_sent)
    then obtain tok where "m = build_message ty t b (default_data (aux_data ?n)) tok"
      by (auto dest: sendNotification_sent(2))
    then have d: "get_prop m ''data'' = JObj (payload_data ty t b (aux_data ?n))"
      by (simp add: get_prop_message default_data_def aux_data_def)
    have "own_property (payload_data ty t b (aux_data ?n)) k
            = Some (if truthy (get_prop ?n k) then get_prop ?n k else JStr [])"
      by (simp add: own_property_payload_data own [OF k])
    with d show ?thesis
      by auto
  qed
  show ?thesis
    using keys vals sent by blast
qed


theorem aux_data_of_event_witness:
  "Messaging_send
     (build_message (JStr ''like'')
        (JStr ([CHR 0xE2, CHR 0x9D, CHR 0xA4, CHR 0xEF, CHR 0xB8, CHR 0x8F] @ '' New Like''))
        (JStr ''Someone liked your post'')
        (JObj [(''post_id'', JStr ''p9''), (''comment_id'', JStr []), (''sender_id'', JStr [])])
        (JStr ''tok-1''))
     \<in> set (snd (on_insert
                  \<lparr> profile_query =
                      (\<lambda>u. \<lparr> result_data = JObj [(''fcm_token'', JStr ''tok-1'')],
                               result_error = JNull \<rparr>),
                    messaging_send = (\<lambda>m. Inr ''projects/p/messages/1'') \<rparr>
                  (JObj [(''new'', JObj [(''user_id'', JStr ''u1''), (''type'', JStr ''like''),
                                         (''post_id'', JStr ''p9'')])])))
   \<and> get_prop
       (aux_data (JObj [(''user_id'', JStr ''u1''), (''type'', JStr ''like''), (''post_id'', JStr ''p9'')]))
       ''post_id'' = JStr ''p9''
   \<and> get_prop
       (aux_data (JObj [(''user_id'', JStr ''u1''), (''type'', JStr ''like''), (''post_id'', JStr ''p9'')]))
       ''comment_id'' = JStr []
   \<and> get_prop
       (get_prop
          (build_message (JStr ''like'')
             (JStr ([CHR 0xE2, CHR 0x9D, CHR 0xA4, CHR 0xEF, CHR 0xB8, CHR 0x8F] @ '' New Like''))
        (JStr ''Someone liked your post'')
             (JObj [(''post_id'', JStr ''p9''), (''comment_id'', JStr []), (''sender_id'', JStr [])])
             (JStr ''tok-1''))
          ''data'')
       ''sender_id'' = JStr []"
proof -
  let ?env = "\<lparr> profile_query =
                  (\<lambda>u. \<lparr> result_data = JObj [(''fcm_token'', JStr ''tok-1'')], result_error = JNull \<rparr>),
                messaging_send = (\<lambda>m. Inr ''projects/p/messages/1'') \<rparr>"
  let ?n = "JObj [(''user_id'', JStr ''u1''), (''type'', JStr ''like''), (''post_id'', JStr ''p9'')]"
  let ?m = "build_message (JStr ''like'')
              (JStr ([CHR 0xE2, CHR 0x9D, CHR 0xA4, CHR 0xEF, CHR 0xB8, CHR 0x8F] @ '' New Like''))
        (JStr ''Someone liked your post'')
              (JObj [(''post_id'', JStr ''p9''), (''comment_id'', JStr []), (''sender_id'', JStr [])])
              (JStr ''tok-1'')"
  note inst = aux_data_of_event [of ?n ?env "JObj [(''new'', ?n)]"]
  have sent: "Messaging_send ?m \<in> set (snd (on_insert ?env (JObj [(''new'', ?n)])))"
    by (simp add: listener_defs dispatch_defs js_defs)
  have new: "get_prop (JObj [(''new'', ?n)]) ''new'' = ?n"
    by (simp add: js_defs)
  have post: "get_prop (aux_data ?n) ''post_id'' = JStr ''p9''"
    using inst by (simp add: js_defs)
  have comment: "get_prop (aux_data ?n) ''comment_id'' = JStr []"
    using inst by (simp add: js_defs)
  have "\<exists>d v. get_prop ?m ''data'' = JObj d \<and> own_property d ''sender_id'' = Some v \<and>
               v = (if truthy (get_prop ?n ''sender_id'') then get_prop ?n ''sender_id'' else JStr [])"
    using inst sent unfolding new by blast
  then obtain d where "get_prop ?m ''data'' = JObj d" "own_property d ''sender_id'' = Some (JStr [])"
    by (auto simp: js_defs)
  then have sender: "get_prop (get_prop ?m ''data'') ''sender_id'' = JStr []"
    by (simp add: object_get_def)
  show ?thesis
    using sent post comment sender by simp
qed

end
